theory Spec2Isabelle
  imports Complex_Main "HOL-Library.Sublist" "HOL-Library.AList"
begin

section \<open>Python values used by the analyzer\<close>

subsection \<open>Strings\<close>

text \<open>
  A Python \<open>str\<close> is a sequence of code points and \<open>len\<close> counts them. The model
  covers the strings whose code points lie below 256: each code point is one
  \<^typ>\<open>char\<close>, read through \<^const>\<open>of_char\<close>. The two tables below are those of
  Python 3 on that range: the characters matched by \<open>\w\<close> in a \<open>str\<close> pattern
  (alphanumeric or underscore) and the characters changed by \<open>str.lower\<close>, which
  moves each of them up by 32 and keeps the length of the string.
\<close>

definition is_word_char :: "char \<Rightarrow> bool" where
  "is_word_char c =
     (let n = (of_char c :: nat)
      in (48 \<le> n \<and> n \<le> 57) \<or> (65 \<le> n \<and> n \<le> 90) \<or> n = 95 \<or> (97 \<le> n \<and> n \<le> 122)
         \<or> n = 170 \<or> (178 \<le> n \<and> n \<le> 179) \<or> n = 181 \<or> (185 \<le> n \<and> n \<le> 186)
         \<or> (188 \<le> n \<and> n \<le> 190) \<or> (192 \<le> n \<and> n \<le> 214) \<or> (216 \<le> n \<and> n \<le> 246)
         \<or> 248 \<le> n)"

definition char_lower :: "char \<Rightarrow> char" where
  "char_lower c =
     (let n = (of_char c :: nat)
      in if (65 \<le> n \<and> n \<le> 90) \<or> (192 \<le> n \<and> n \<le> 214) \<or> (216 \<le> n \<and> n \<le> 222)
         then char_of (n + 32) else c)"

definition str_lower :: "string \<Rightarrow> string" where
  "str_lower s = map char_lower s"

text \<open>\<open>sub in s\<close> on strings is the test for a contiguous substring.\<close>

definition str_contains :: "string \<Rightarrow> string \<Rightarrow> bool" where
  "str_contains sub s = sublist sub s"

text \<open>\<open>s.startswith(p)\<close>, and \<open>s.startswith((p, q))\<close> with a tuple of prefixes.\<close>

definition startswith :: "string \<Rightarrow> string \<Rightarrow> bool" where
  "startswith s p = prefix p s"

definition startswith_any :: "string \<Rightarrow> string list \<Rightarrow> bool" where
  "startswith_any s ps = list_ex (startswith s) ps"

text \<open>
  \<open>s.count(sub)\<close>: the occurrences of \<open>sub\<close> found from left to right, the search
  resuming behind each occurrence, so that they do not overlap. For the empty
  \<open>sub\<close> Python answers \<open>len(s) + 1\<close>.
\<close>

function str_count :: "string \<Rightarrow> string \<Rightarrow> nat" where
  "str_count s sub =
     (if sub = [] then length s + 1
      else if length s < length sub then 0
      else if prefix sub s then 1 + str_count (drop (length sub) s) sub
      else str_count (tl s) sub)"
  by pat_completeness auto
termination
proof (relation "measure (\<lambda>(s, sub). length s)")
  show "wf (measure (\<lambda>(s, sub). length s))" by simp
next
  fix s sub :: string
  assume "sub \<noteq> []" "\<not> length s < length sub"
  then have "0 < length sub" "0 < length s" by (cases sub; cases s; simp)+
  then show "((drop (length sub) s, sub), (s, sub)) \<in> measure (\<lambda>(s, sub). length s)"
    by simp
next
  fix s sub :: string
  assume "sub \<noteq> []" "\<not> length s < length sub"
  then have "0 < length s" by (cases sub; cases s; simp)
  then show "((tl s, sub), (s, sub)) \<in> measure (\<lambda>(s, sub). length s)"
    by simp
qed

declare str_count.simps [simp del]

subsection \<open>The regular expression \<open>\b\w+\b\<close>\<close>

text \<open>
  \<open>re.findall(r'\b\w+\b', s)\<close> scans \<open>s\<close> from the left. At each position it tries
  the pattern: \<open>\b\<close> holds where exactly one of the characters before and after
  the position is a word character (the outside of the string counts as a
  non-word character); \<open>\w+\<close> is greedy, it first takes every word character that
  follows and gives them back one at a time while the closing \<open>\b\<close> fails. After
  a match the scan resumes behind it, otherwise one character further.
  \<open>prev\<close> says whether the character before the position is a word character.
\<close>

definition word_boundary :: "bool \<Rightarrow> string \<Rightarrow> bool" where
  "word_boundary prev rest =
     (prev \<noteq> (case rest of [] \<Rightarrow> False | c # _ \<Rightarrow> is_word_char c))"

fun match_word_end :: "string \<Rightarrow> nat \<Rightarrow> nat option" where
  "match_word_end s 0 = None"
| "match_word_end s (Suc n) =
     (if word_boundary (is_word_char (s ! n)) (drop (Suc n) s) then Some (Suc n)
      else match_word_end s n)"

definition match_token :: "bool \<Rightarrow> string \<Rightarrow> string option" where
  "match_token prev rest =
     (if word_boundary prev rest
      then (case match_word_end rest (length (takeWhile is_word_char rest)) of
              None \<Rightarrow> None
            | Some n \<Rightarrow> Some (take n rest))
      else None)"

lemma match_word_end_bounds:
  "match_word_end s n = Some k \<Longrightarrow> 0 < k \<and> k \<le> n"
  by (induction n) (auto split: if_splits)

lemma match_token_length:
  assumes "match_token prev s = Some tok"
  shows "0 < length tok \<and> length tok \<le> length s"
proof -
  from assms obtain k where k: "match_word_end s (length (takeWhile is_word_char s)) = Some k"
    and tok: "tok = take k s"
    by (auto simp: match_token_def split: if_splits option.splits)
  from match_word_end_bounds [OF k] have "0 < k" "k \<le> length (takeWhile is_word_char s)"
    by simp_all
  moreover have "length (takeWhile is_word_char s) \<le> length s"
    by (rule length_takeWhile_le)
  ultimately show ?thesis using tok by simp
qed

function findall_words :: "bool \<Rightarrow> string \<Rightarrow> string list" where
  "findall_words prev s =
     (case match_token prev s of
        Some tok \<Rightarrow> tok # findall_words (is_word_char (last tok)) (drop (length tok) s)
      | None \<Rightarrow> (case s of [] \<Rightarrow> [] | c # cs \<Rightarrow> findall_words (is_word_char c) cs))"
  by pat_completeness auto
termination
proof (relation "measure (\<lambda>(prev, s). length s)")
  show "wf (measure (\<lambda>(prev, s). length s))" by simp
next
  fix prev and s tok :: string
  assume "match_token prev s = Some tok"
  from match_token_length [OF this] have "length s - length tok < length s"
    by linarith
  then show "((is_word_char (last tok), drop (length tok) s), (prev, s)) \<in> measure (\<lambda>(prev, s). length s)"
    by simp
next
  fix prev and s :: string and c cs
  assume "s = c # cs"
  then show "((is_word_char c, cs), (prev, s)) \<in> measure (\<lambda>(prev, s). length s)"
    by simp
qed

declare findall_words.simps [simp del]

definition re_findall_words :: "string \<Rightarrow> string list" where
  "re_findall_words s = findall_words False s"

subsection \<open>Numbers\<close>

text \<open>
  Python's \<open>int\<close> is unbounded (\<^typ>\<open>int\<close>); a \<open>float\<close> is an IEEE binary64 number,
  modelled by its exact value, a \<^typ>\<open>rat\<close>. Each float operation is the exact
  operation followed by \<open>fl\<close>, the rounding to the nearest number with a 53-bit
  significand, ties to the even significand. The exponent range is not modelled
  (no overflow, no subnormal numbers), and neither are \<open>-0.0\<close>, \<open>inf\<close> and \<open>nan\<close>:
  the quotients computed here lie between \<open>1/n\<close> and \<open>n + 1\<close> for a text of \<open>n\<close>
  characters.
\<close>

datatype py_error = ZeroDivisionError

datatype pynum = PyInt int | PyFloat rat

fun num_val :: "pynum \<Rightarrow> rat" where
  "num_val (PyInt i) = of_int i"
| "num_val (PyFloat x) = x"

definition round_half_even :: "rat \<Rightarrow> int" where
  "round_half_even q =
     (let f = \<lfloor>q\<rfloor>; r = q - of_int f
      in if r < 1 / 2 then f else if 1 / 2 < r then f + 1 else if even f then f else f + 1)"

text \<open>The number of digits of \<open>n\<close> in base \<open>b\<close>.\<close>

function num_digits :: "nat \<Rightarrow> nat \<Rightarrow> nat" where
  "num_digits b n = (if b < 2 \<or> n < b then 1 else Suc (num_digits b (n div b)))"
  by pat_completeness auto
termination
  by (relation "measure (\<lambda>(b, n). n)") auto

declare num_digits.simps [simp del]

text \<open>For \<open>0 < x\<close>, the exponent \<open>e\<close> with \<open>b ^ e \<le> x < b ^ (e + 1)\<close>.\<close>

definition ilog :: "nat \<Rightarrow> rat \<Rightarrow> int" where
  "ilog b x =
     (if 1 \<le> x then int (num_digits b (nat \<lfloor>x\<rfloor>)) - 1
      else - int (num_digits b (nat (\<lceil>1 / x\<rceil> - 1))))"

definition pow_int :: "nat \<Rightarrow> int \<Rightarrow> rat" where
  "pow_int b e = (if 0 \<le> e then of_nat b ^ nat e else 1 / of_nat b ^ nat (- e))"

definition fl :: "rat \<Rightarrow> rat" where
  "fl q =
     (if q = 0 then 0
      else let u = pow_int 2 (ilog 2 \<bar>q\<bar> - 52)
           in of_int (round_half_even (q / u)) * u)"

text \<open>\<open>a / b\<close> on two ints: the correctly rounded quotient, or ZeroDivisionError.\<close>

definition py_truediv :: "int \<Rightarrow> int \<Rightarrow> py_error + rat" where
  "py_truediv a b = (if b = 0 then Inl ZeroDivisionError else Inr (fl (of_int a / of_int b)))"

definition float_mul :: "rat \<Rightarrow> rat \<Rightarrow> rat" where
  "float_mul x y = fl (x * y)"

text \<open>
  \<open>round(v, 2)\<close>: an int is returned as it is; a float is rounded to two decimals
  on its exact value, ties to even, and the decimal result is read back as a
  float.
\<close>

fun py_round2 :: "pynum \<Rightarrow> pynum" where
  "py_round2 (PyInt i) = PyInt i"
| "py_round2 (PyFloat x) = PyFloat (fl (of_int (round_half_even (x * 100)) / 100))"

subsection \<open>Formatting numbers\<close>

definition digit_char :: "nat \<Rightarrow> char" where
  "digit_char d = char_of (48 + d)"

fun digits_of_nat :: "nat \<Rightarrow> nat list" where
  "digits_of_nat n = (if n < 10 then [n] else digits_of_nat (n div 10) @ [n mod 10])"

declare digits_of_nat.simps [simp del]

definition str_of_nat :: "nat \<Rightarrow> string" where
  "str_of_nat n = map digit_char (digits_of_nat n)"

definition str_of_int :: "int \<Rightarrow> string" where
  "str_of_int i = (if i < 0 then ''-'' @ str_of_nat (nat (- i)) else str_of_nat (nat i))"

text \<open>
  \<open>repr\<close> of a float is the shortest decimal that reads back as the same float:
  with \<open>p\<close> significant digits, \<open>p\<close> from 1 to 17, the float is rounded to \<open>p\<close>
  digits and the first \<open>p\<close> whose decimal reads back is taken. The result is the
  digit sequence without trailing zeros and the position \<open>decpt\<close> of the decimal
  point (the value is \<open>0.d1 d2 ... * 10 ^ decpt\<close>).
\<close>

definition decimal_mantissa :: "rat \<Rightarrow> int \<Rightarrow> nat \<Rightarrow> nat" where
  "decimal_mantissa x dp p = nat (round_half_even (x / pow_int 10 (dp - int p)))"

definition reads_back :: "rat \<Rightarrow> int \<Rightarrow> nat \<Rightarrow> bool" where
  "reads_back x dp p = (fl (of_nat (decimal_mantissa x dp p) * pow_int 10 (dp - int p)) = x)"

definition decimal_digits :: "rat \<Rightarrow> int \<Rightarrow> nat \<Rightarrow> nat list \<times> int" where
  "decimal_digits x dp p =
     (let ds = digits_of_nat (decimal_mantissa x dp p)
      in (rev (dropWhile (\<lambda>d. d = 0) (rev ds)), dp - int p + int (length ds)))"

fun shortest_from :: "rat \<Rightarrow> int \<Rightarrow> nat \<Rightarrow> nat \<Rightarrow> nat list \<times> int" where
  "shortest_from x dp p 0 = decimal_digits x dp p"
| "shortest_from x dp p (Suc k) =
     (if reads_back x dp p then decimal_digits x dp p else shortest_from x dp (Suc p) k)"

definition shortest_digits :: "rat \<Rightarrow> nat list \<times> int" where
  "shortest_digits x = shortest_from x (ilog 10 x + 1) 1 16"

text \<open>
  The layout of \<open>repr\<close>: exponent notation when \<open>decpt \<le> -4\<close> or \<open>16 < decpt\<close> (the
  exponent with a sign and at least two digits), otherwise positional notation
  with at least one digit behind the point.
\<close>

definition float_repr_pos :: "rat \<Rightarrow> string" where
  "float_repr_pos x =
     (let (ds, decpt) = shortest_digits x; n = int (length ds); s = map digit_char ds
      in if decpt \<le> - 4 \<or> 16 < decpt then
           (let e = decpt - 1; es = str_of_nat (nat \<bar>e\<bar>)
            in take 1 s @ (if 1 < n then ''.'' @ drop 1 s else [])
               @ ''e'' @ (if e < 0 then ''-'' else ''+'')
               @ (if length es < 2 then ''0'' @ es else es))
         else if decpt \<le> 0 then ''0.'' @ replicate (nat (- decpt)) CHR ''0'' @ s
         else if n \<le> decpt then s @ replicate (nat (decpt - n)) CHR ''0'' @ ''.0''
         else take (nat decpt) s @ ''.'' @ drop (nat decpt) s)"

definition float_repr :: "rat \<Rightarrow> string" where
  "float_repr x =
     (if x = 0 then ''0.0''
      else if x < 0 then ''-'' @ float_repr_pos (- x)
      else float_repr_pos x)"

text \<open>\<open>str(v)\<close>, which is what an f-string field \<open>{v}\<close> inserts.\<close>

fun py_str :: "pynum \<Rightarrow> string" where
  "py_str (PyInt i) = str_of_int i"
| "py_str (PyFloat x) = float_repr x"

text \<open>
  \<open>"{:.0f}".format(v)\<close>: an int is converted to a float first; the float is
  rounded to an integer on its exact value, ties to even, and keeps its sign.
  The audit scores lie between 0 and 100; an int beyond the range of a float,
  for which the conversion raises OverflowError, is outside the model.
\<close>

definition format_0f_float :: "rat \<Rightarrow> string" where
  "format_0f_float x =
     (if x < 0 then ''-'' else []) @ str_of_nat (nat \<bar>round_half_even x\<bar>)"

fun format_0f :: "pynum \<Rightarrow> string" where
  "format_0f (PyInt i) = format_0f_float (fl (of_int i))"
| "format_0f (PyFloat x) = format_0f_float x"

section \<open>The data model\<close>

text \<open>
  The page snapshot handed over by the scraper: a dictionary with the keys
  \<open>url\<close>, \<open>title\<close>, \<open>meta_description\<close>, \<open>headings\<close> (itself a dictionary with the
  keys \<open>h1\<close>, \<open>h2\<close>, \<open>h3\<close>, in this order), \<open>content\<close>, \<open>links\<close> and \<open>images\<close>.
\<close>

record headings =
  h1 :: "string list"
  h2 :: "string list"
  h3 :: "string list"

record link =
  href :: string
  link_text :: string

record image =
  src :: string
  alt :: string

record snapshot =
  url :: string
  title :: string
  meta_description :: string
  headings :: headings
  content :: string
  links :: "link list"
  images :: "image list"

text \<open>\<open>content["headings"].values()\<close>, in the order of insertion.\<close>

definition headings_values :: "headings \<Rightarrow> string list list" where
  "headings_values h = [h1 h, h2 h, h3 h]"

text \<open>
  The analysis dictionary. Its entries \<open>title\<close>, \<open>meta_description\<close>, \<open>headings\<close>,
  \<open>content\<close>, \<open>links\<close> and \<open>images\<close> are always present; \<open>keywords\<close> is present only
  when keywords were analysed (\<open>None\<close> stands for the missing key). The keyword
  dictionary keeps the order of insertion, which the recommendations follow, so
  it is an association list.
\<close>

record title_metrics =
  title_length :: int
  has_title :: bool
  title_optimal_length :: bool

record meta_metrics =
  meta_length :: int
  has_meta :: bool
  meta_optimal_length :: bool

record headings_metrics =
  h1_count :: int
  h2_count :: int
  h3_count :: int
  has_proper_structure :: bool

record content_metrics =
  word_count :: int
  has_sufficient_content :: bool

record keyword_metrics =
  kw_count :: int
  density :: pynum
  in_title :: bool
  in_meta :: bool
  in_headings :: bool

record links_metrics =
  internal_count :: int
  external_count :: int
  links_total_count :: int

record images_metrics =
  images_total_count :: int
  missing_alt_count :: int

record analysis =
  a_title :: title_metrics
  a_meta_description :: meta_metrics
  a_headings :: headings_metrics
  a_content :: content_metrics
  a_keywords :: "(string \<times> keyword_metrics) list option"
  a_links :: links_metrics
  a_images :: images_metrics

text \<open>The audit scores: numbers (ints or floats) under four keys.\<close>

record lighthouse =
  performance :: pynum
  seo :: pynum
  accessibility :: pynum
  best_practices :: pynum

record recommendations =
  critical :: "string list"
  important :: "string list"
  minor :: "string list"

section \<open>\<open>analyze_content\<close>\<close>

text \<open>
  The density of one keyword: \<open>(exact_matches / word_count * 100) if word_count > 0 else 0\<close>.
  The division can raise; the guard decides whether it is reached.
\<close>

definition keyword_density :: "int \<Rightarrow> int \<Rightarrow> py_error + pynum" where
  "keyword_density exact_matches wc =
     (if 0 < wc then
        (case py_truediv exact_matches wc of
           Inl e \<Rightarrow> Inl e
         | Inr q \<Rightarrow> Inr (PyFloat (float_mul q 100)))
      else Inr (PyInt 0))"

text \<open>The body of the loop over the keywords: the entry stored for \<open>keyword\<close>.\<close>

definition analyze_keyword :: "snapshot \<Rightarrow> int \<Rightarrow> string \<Rightarrow> py_error + keyword_metrics" where
  "analyze_keyword c wc keyword =
     (let keyword_lower = str_lower keyword;
          exact_matches = int (str_count (str_lower (content c)) keyword_lower)
      in case keyword_density exact_matches wc of
           Inl e \<Rightarrow> Inl e
         | Inr d \<Rightarrow>
             Inr \<lparr>kw_count = exact_matches,
                  density = py_round2 d,
                  in_title = str_contains keyword_lower (str_lower (title c)),
                  in_meta = str_contains keyword_lower (str_lower (meta_description c)),
                  in_headings =
                    list_ex (\<lambda>h_list. list_ex (\<lambda>h. str_contains keyword_lower (str_lower h)) h_list)
                      (headings_values (headings c))\<rparr>)"

text \<open>
  The loop \<open>for keyword in keywords\<close>, with the dictionary built so far:
  assigning to a key that is already there replaces its value and keeps its place.
\<close>

fun analyze_keywords ::
  "snapshot \<Rightarrow> int \<Rightarrow> string list \<Rightarrow> (string \<times> keyword_metrics) list
     \<Rightarrow> py_error + (string \<times> keyword_metrics) list" where
  "analyze_keywords c wc [] keyword_analysis = Inr keyword_analysis"
| "analyze_keywords c wc (keyword # rest) keyword_analysis =
     (case analyze_keyword c wc keyword of
        Inl e \<Rightarrow> Inl e
      | Inr d \<Rightarrow> analyze_keywords c wc rest (AList.update keyword d keyword_analysis))"

text \<open>
  \<open>if keywords:\<close> is false for \<open>None\<close> and for the empty list; the \<open>keywords\<close> entry
  is then not written.
\<close>

definition keywords_entry ::
  "snapshot \<Rightarrow> int \<Rightarrow> string list option
     \<Rightarrow> py_error + (string \<times> keyword_metrics) list option" where
  "keywords_entry c wc keywords =
     (case keywords of
        None \<Rightarrow> Inr None
      | Some ks \<Rightarrow>
          if ks = [] then Inr None
          else (case analyze_keywords c wc ks [] of
                  Inl e \<Rightarrow> Inl e
                | Inr keyword_analysis \<Rightarrow> Inr (Some keyword_analysis)))"

definition analyze_content :: "snapshot \<Rightarrow> string list option \<Rightarrow> py_error + analysis" where
  "analyze_content c keywords =
     (let words = re_findall_words (str_lower (content c));
          wc = int (length words);
          internal_links = filter (\<lambda>l. startswith_any (href l) [''/'', url c]) (links c);
          external_links = filter (\<lambda>l. startswith_any (href l) [''http'', ''https'']) (links c);
          images_without_alt = filter (\<lambda>img. alt img = []) (images c)
      in case keywords_entry c wc keywords of
           Inl e \<Rightarrow> Inl e
         | Inr kws \<Rightarrow>
             Inr \<lparr>a_title =
                    \<lparr>title_length = int (length (title c)),
                     has_title = (title c \<noteq> []),
                     title_optimal_length =
                       (if title c \<noteq> [] then 50 \<le> length (title c) \<and> length (title c) \<le> 60
                        else False)\<rparr>,
                  a_meta_description =
                    \<lparr>meta_length = int (length (meta_description c)),
                     has_meta = (meta_description c \<noteq> []),
                     meta_optimal_length =
                       (if meta_description c \<noteq> []
                        then 150 \<le> length (meta_description c) \<and> length (meta_description c) \<le> 160
                        else False)\<rparr>,
                  a_headings =
                    \<lparr>h1_count = int (length (h1 (headings c))),
                     h2_count = int (length (h2 (headings c))),
                     h3_count = int (length (h3 (headings c))),
                     has_proper_structure = (length (h1 (headings c)) = 1)\<rparr>,
                  a_content =
                    \<lparr>word_count = wc,
                     has_sufficient_content = (300 \<le> wc)\<rparr>,
                  a_keywords = kws,
                  a_links =
                    \<lparr>internal_count = int (length internal_links),
                     external_count = int (length external_links),
                     links_total_count = int (length (links c))\<rparr>,
                  a_images =
                    \<lparr>images_total_count = int (length (images c)),
                     missing_alt_count = int (length images_without_alt)\<rparr>\<rparr>)"

section \<open>\<open>generate_recommendations\<close>\<close>

text \<open>
  The function fills three lists, \<open>critical\<close>, \<open>important\<close> and \<open>minor\<close>, by
  appending; each of its blocks is a function from the lists so far to the
  lists after the block, and the blocks run in the order of the source.
\<close>

definition add_critical :: "string \<Rightarrow> recommendations \<Rightarrow> recommendations" where
  "add_critical m r = r\<lparr>critical := critical r @ [m]\<rparr>"

definition add_important :: "string \<Rightarrow> recommendations \<Rightarrow> recommendations" where
  "add_important m r = r\<lparr>important := important r @ [m]\<rparr>"

definition add_minor :: "string \<Rightarrow> recommendations \<Rightarrow> recommendations" where
  "add_minor m r = r\<lparr>minor := minor r @ [m]\<rparr>"

definition apostrophe :: char where
  "apostrophe = CHR 0x27"

definition msg_add_title :: string where
  "msg_add_title = ''Add a title tag to your page''"

definition msg_adjust_title :: string where
  "msg_adjust_title =
     ''Adjust title length to be between 50-60 characters for optimal display in search results''"

definition msg_add_meta :: string where
  "msg_add_meta = ''Add a meta description to your page''"

definition msg_adjust_meta :: string where
  "msg_adjust_meta =
     ''Adjust meta description length to be between 150-160 characters for optimal display''"

definition msg_add_h1 :: string where
  "msg_add_h1 = ''Add an H1 heading to your page''"

definition msg_one_h1 :: string where
  "msg_one_h1 = ''Use only one H1 heading per page''"

definition msg_more_content :: string where
  "msg_more_content = ''Add more content to your page (aim for at least 300 words)''"

definition msg_include_keyword :: "string \<Rightarrow> string" where
  "msg_include_keyword keyword =
     ''Include the keyword '' @ [apostrophe] @ keyword @ [apostrophe]
       @ '' in your title, meta description, or headings''"

definition msg_increase_keyword :: "string \<Rightarrow> pynum \<Rightarrow> string" where
  "msg_increase_keyword keyword d =
     ''Consider increasing the usage of keyword '' @ [apostrophe] @ keyword @ [apostrophe]
       @ '' (current density: '' @ py_str d @ ''%)''"

definition msg_reduce_keyword :: "string \<Rightarrow> pynum \<Rightarrow> string" where
  "msg_reduce_keyword keyword d =
     ''Reduce the usage of keyword '' @ [apostrophe] @ keyword @ [apostrophe]
       @ '' to avoid keyword stuffing (current density: '' @ py_str d @ ''%)''"

definition msg_alt_text :: "int \<Rightarrow> string" where
  "msg_alt_text n = ''Add alt text to '' @ str_of_int n @ '' images''"

definition msg_internal_links :: string where
  "msg_internal_links = ''Add internal links to improve site navigation''"

definition msg_external_links :: string where
  "msg_external_links = ''Consider adding relevant external links''"

definition msg_improve_performance :: "pynum \<Rightarrow> string" where
  "msg_improve_performance v =
     ''Improve page performance (current score: '' @ format_0f v @ ''/100)''"

definition msg_optimize_performance :: "pynum \<Rightarrow> string" where
  "msg_optimize_performance v =
     ''Consider optimizing page performance (current score: '' @ format_0f v @ ''/100)''"

definition msg_technical_seo :: "pynum \<Rightarrow> string" where
  "msg_technical_seo v =
     ''Address technical SEO issues (current score: '' @ format_0f v @ ''/100)''"

definition msg_accessibility :: "pynum \<Rightarrow> string" where
  "msg_accessibility v =
     ''Improve accessibility (current score: '' @ format_0f v @ ''/100)''"

definition title_rule :: "analysis \<Rightarrow> recommendations \<Rightarrow> recommendations" where
  "title_rule a r =
     (if \<not> has_title (a_title a) then add_critical msg_add_title r
      else if \<not> title_optimal_length (a_title a) then add_important msg_adjust_title r
      else r)"

definition meta_rule :: "analysis \<Rightarrow> recommendations \<Rightarrow> recommendations" where
  "meta_rule a r =
     (if \<not> has_meta (a_meta_description a) then add_critical msg_add_meta r
      else if \<not> meta_optimal_length (a_meta_description a) then add_important msg_adjust_meta r
      else r)"

definition heading_rule :: "analysis \<Rightarrow> recommendations \<Rightarrow> recommendations" where
  "heading_rule a r =
     (if \<not> has_proper_structure (a_headings a) then
        (if h1_count (a_headings a) = 0 then add_critical msg_add_h1 r
         else if 1 < h1_count (a_headings a) then add_important msg_one_h1 r
         else r)
      else r)"

definition content_rule :: "analysis \<Rightarrow> recommendations \<Rightarrow> recommendations" where
  "content_rule a r =
     (if \<not> has_sufficient_content (a_content a) then add_important msg_more_content r else r)"

text \<open>The body of \<open>for keyword, data in analysis["keywords"].items()\<close>.\<close>

definition keyword_rule :: "string \<times> keyword_metrics \<Rightarrow> recommendations \<Rightarrow> recommendations" where
  "keyword_rule kd r =
     (let keyword = fst kd; d = snd kd;
          r1 = (if \<not> in_title d \<and> \<not> in_meta d \<and> \<not> in_headings d
                then add_important (msg_include_keyword keyword) r else r)
      in if num_val (density d) < 1 / 2 then add_minor (msg_increase_keyword keyword (density d)) r1
         else if 3 < num_val (density d) then add_important (msg_reduce_keyword keyword (density d)) r1
         else r1)"

definition keywords_rule :: "analysis \<Rightarrow> recommendations \<Rightarrow> recommendations" where
  "keywords_rule a r =
     (case a_keywords a of
        None \<Rightarrow> r
      | Some kws \<Rightarrow> fold keyword_rule kws r)"

definition image_rule :: "analysis \<Rightarrow> recommendations \<Rightarrow> recommendations" where
  "image_rule a r =
     (if 0 < missing_alt_count (a_images a)
      then add_important (msg_alt_text (missing_alt_count (a_images a))) r else r)"

definition internal_link_rule :: "analysis \<Rightarrow> recommendations \<Rightarrow> recommendations" where
  "internal_link_rule a r =
     (if internal_count (a_links a) = 0 then add_minor msg_internal_links r else r)"

definition external_link_rule :: "analysis \<Rightarrow> recommendations \<Rightarrow> recommendations" where
  "external_link_rule a r =
     (if external_count (a_links a) = 0 then add_minor msg_external_links r else r)"

definition performance_rule :: "lighthouse \<Rightarrow> recommendations \<Rightarrow> recommendations" where
  "performance_rule l r =
     (if num_val (performance l) < 90 then add_critical (msg_improve_performance (performance l)) r
      else if num_val (performance l) < 95
      then add_important (msg_optimize_performance (performance l)) r
      else r)"

definition seo_rule :: "lighthouse \<Rightarrow> recommendations \<Rightarrow> recommendations" where
  "seo_rule l r =
     (if num_val (seo l) < 90 then add_important (msg_technical_seo (seo l)) r else r)"

definition accessibility_rule :: "lighthouse \<Rightarrow> recommendations \<Rightarrow> recommendations" where
  "accessibility_rule l r =
     (if num_val (accessibility l) < 90 then add_important (msg_accessibility (accessibility l)) r
      else r)"

definition generate_recommendations :: "analysis \<Rightarrow> lighthouse \<Rightarrow> recommendations" where
  "generate_recommendations a l =
     (let r0 = \<lparr>critical = [], important = [], minor = []\<rparr>;
          r1 = title_rule a r0;
          r2 = meta_rule a r1;
          r3 = heading_rule a r2;
          r4 = content_rule a r3;
          r5 = keywords_rule a r4;
          r6 = image_rule a r5;
          r7 = internal_link_rule a r6;
          r8 = external_link_rule a r7;
          r9 = performance_rule l r8;
          r10 = seo_rule l r9
      in accessibility_rule l r10)"

section \<open>Closed forms and example inputs\<close>

text \<open>
  The division in \<open>keyword_density\<close> is guarded, so \<open>analyze_content\<close> never takes
  an error branch. The definitions below name what it returns; the lemmas after
  them prove that it does.
\<close>

definition keyword_data :: "snapshot \<Rightarrow> int \<Rightarrow> string \<Rightarrow> keyword_metrics" where
  "keyword_data c wc keyword =
     \<lparr>kw_count = int (str_count (str_lower (content c)) (str_lower keyword)),
      density =
        py_round2
          (if 0 < wc
           then PyFloat
                  (float_mul
                     (fl (of_int (int (str_count (str_lower (content c)) (str_lower keyword)))
                          / of_int wc))
                     100)
           else PyInt 0),
      in_title = str_contains (str_lower keyword) (str_lower (title c)),
      in_meta = str_contains (str_lower keyword) (str_lower (meta_description c)),
      in_headings =
        list_ex (\<lambda>h_list. list_ex (\<lambda>h. str_contains (str_lower keyword) (str_lower h)) h_list)
          (headings_values (headings c))\<rparr>"

definition keywords_result ::
  "snapshot \<Rightarrow> int \<Rightarrow> string list option \<Rightarrow> (string \<times> keyword_metrics) list option" where
  "keywords_result c wc keywords =
     (case keywords of
        None \<Rightarrow> None
      | Some ks \<Rightarrow>
          if ks = [] then None
          else Some (fold (\<lambda>k. AList.update k (keyword_data c wc k)) ks []))"

definition analysis_of :: "snapshot \<Rightarrow> string list option \<Rightarrow> analysis" where
  "analysis_of c keywords =
     (let wc = int (length (re_findall_words (str_lower (content c)))) in
       \<lparr>a_title =
          \<lparr>title_length = int (length (title c)),
           has_title = (title c \<noteq> []),
           title_optimal_length =
             (title c \<noteq> [] \<and> 50 \<le> length (title c) \<and> length (title c) \<le> 60)\<rparr>,
        a_meta_description =
          \<lparr>meta_length = int (length (meta_description c)),
           has_meta = (meta_description c \<noteq> []),
           meta_optimal_length =
             (meta_description c \<noteq> [] \<and> 150 \<le> length (meta_description c)
              \<and> length (meta_description c) \<le> 160)\<rparr>,
        a_headings =
          \<lparr>h1_count = int (length (h1 (headings c))),
           h2_count = int (length (h2 (headings c))),
           h3_count = int (length (h3 (headings c))),
           has_proper_structure = (length (h1 (headings c)) = 1)\<rparr>,
        a_content = \<lparr>word_count = wc, has_sufficient_content = (300 \<le> wc)\<rparr>,
        a_keywords = keywords_result c wc keywords,
        a_links =
          \<lparr>internal_count =
             int (length (filter (\<lambda>l. startswith_any (href l) [''/'', url c]) (links c))),
           external_count =
             int (length (filter (\<lambda>l. startswith_any (href l) [''http'', ''https'']) (links c))),
           links_total_count = int (length (links c))\<rparr>,
        a_images =
          \<lparr>images_total_count = int (length (images c)),
           missing_alt_count = int (length (filter (\<lambda>img. alt img = []) (images c)))\<rparr>\<rparr>)"

text \<open>
  What one keyword adds to the important and to the minor list, and the keyword
  entries of an analysis (none when the \<open>keywords\<close> key is missing).
\<close>

definition keyword_important :: "string \<times> keyword_metrics \<Rightarrow> string list" where
  "keyword_important kd =
     (if \<not> in_title (snd kd) \<and> \<not> in_meta (snd kd) \<and> \<not> in_headings (snd kd)
      then [msg_include_keyword (fst kd)] else [])
     @ (if 3 < num_val (density (snd kd))
        then [msg_reduce_keyword (fst kd) (density (snd kd))] else [])"

definition keyword_minor :: "string \<times> keyword_metrics \<Rightarrow> string list" where
  "keyword_minor kd =
     (if num_val (density (snd kd)) < 1 / 2
      then [msg_increase_keyword (fst kd) (density (snd kd))] else [])"

definition keywords_of :: "analysis \<Rightarrow> (string \<times> keyword_metrics) list" where
  "keywords_of a = (case a_keywords a of None \<Rightarrow> [] | Some kws \<Rightarrow> kws)"

text \<open>
  A keyword-related recommendation is one that starts like one of the three
  keyword templates; \<open>all_messages\<close> is every recommendation of a result.
\<close>

definition is_keyword_message :: "string \<Rightarrow> bool" where
  "is_keyword_message m =
     (prefix ''Include the keyword '' m
      \<or> prefix ''Consider increasing the usage of keyword '' m
      \<or> prefix ''Reduce the usage of keyword '' m)"

definition all_messages :: "recommendations \<Rightarrow> string list" where
  "all_messages r = critical r @ important r @ minor r"




text \<open>The page with nothing on it, and the audit with every score at 50.\<close>

definition empty_snapshot :: snapshot where
  "empty_snapshot =
     \<lparr>url = ''https://x.com'', title = [], meta_description = [],
      headings = \<lparr>h1 = [], h2 = [], h3 = []\<rparr>, content = [], links = [], images = []\<rparr>"

definition audit_50 :: lighthouse where
  "audit_50 =
     \<lparr>performance = PyInt 50, seo = PyInt 50, accessibility = PyInt 50,
      best_practices = PyInt 50\<rparr>"

text \<open>The analysis of the empty page.\<close>

definition empty_analysis :: analysis where
  "empty_analysis =
     \<lparr>a_title = \<lparr>title_length = 0, has_title = False, title_optimal_length = False\<rparr>,
      a_meta_description = \<lparr>meta_length = 0, has_meta = False, meta_optimal_length = False\<rparr>,
      a_headings = \<lparr>h1_count = 0, h2_count = 0, h3_count = 0, has_proper_structure = False\<rparr>,
      a_content = \<lparr>word_count = 0, has_sufficient_content = False\<rparr>,
      a_keywords = None,
      a_links = \<lparr>internal_count = 0, external_count = 0, links_total_count = 0\<rparr>,
      a_images = \<lparr>images_total_count = 0, missing_alt_count = 0\<rparr>\<rparr>"


definition mail_link_page :: snapshot where
  "mail_link_page =
     empty_snapshot\<lparr>links := [\<lparr>href = ''mailto:me@x.com'', link_text = ''mail''\<rparr>]\<rparr>"

definition own_link_page :: snapshot where
  "own_link_page =
     empty_snapshot\<lparr>links := [\<lparr>href = ''https://x.com/about'', link_text = ''about''\<rparr>]\<rparr>"


section \<open>\<open>analyze_content\<close> always returns\<close>

lemma keyword_density_Inr:
  "keyword_density m wc =
     Inr (if 0 < wc then PyFloat (float_mul (fl (of_int m / of_int wc)) 100) else PyInt 0)"
  by (simp add: keyword_density_def py_truediv_def)

lemma analyze_keyword_Inr: "analyze_keyword c wc keyword = Inr (keyword_data c wc keyword)"
  by (simp add: analyze_keyword_def keyword_density_Inr keyword_data_def Let_def)

lemma analyze_keywords_Inr:
  "analyze_keywords c wc ks acc =
     Inr (fold (\<lambda>k. AList.update k (keyword_data c wc k)) ks acc)"
  by (induction ks arbitrary: acc) (simp_all add: analyze_keyword_Inr)


lemma keywords_entry_Inr: "keywords_entry c wc keywords = Inr (keywords_result c wc keywords)"
  by (simp add: keywords_entry_def keywords_result_def analyze_keywords_Inr split: option.splits)

lemma analyze_content_Inr: "analyze_content c keywords = Inr (analysis_of c keywords)"
  by (simp add: analyze_content_def keywords_entry_Inr analysis_of_def Let_def)

lemma format_0f_50: "format_0f (PyInt 50) = ''50''"
  by code_simp

section \<open>What each block of \<open>generate_recommendations\<close> appends\<close>

lemma keyword_rule_eq:
  "keyword_rule kd r =
     r\<lparr>important := important r @ keyword_important kd, minor := minor r @ keyword_minor kd\<rparr>"
  by (simp add: keyword_rule_def keyword_important_def keyword_minor_def Let_def
      add_important_def add_minor_def)

lemma fold_keyword_rule:
  "fold keyword_rule kws r =
     r\<lparr>important := important r @ concat (map keyword_important kws),
       minor := minor r @ concat (map keyword_minor kws)\<rparr>"
  by (induction kws arbitrary: r) (simp_all add: keyword_rule_eq)

lemma keywords_rule_eq:
  "keywords_rule a r =
     r\<lparr>important := important r @ concat (map keyword_important (keywords_of a)),
       minor := minor r @ concat (map keyword_minor (keywords_of a))\<rparr>"
  by (simp add: keywords_rule_def keywords_of_def fold_keyword_rule split: option.splits)


lemma title_rule_buckets:
  "critical (title_rule a r) =
     critical r @ (if \<not> has_title (a_title a) then [msg_add_title] else [])"
  "important (title_rule a r) =
     important r @ (if has_title (a_title a) \<and> \<not> title_optimal_length (a_title a)
                    then [msg_adjust_title] else [])"
  "minor (title_rule a r) = minor r"
  by (simp_all add: title_rule_def add_critical_def add_important_def)

lemma meta_rule_buckets:
  "critical (meta_rule a r) =
     critical r @ (if \<not> has_meta (a_meta_description a) then [msg_add_meta] else [])"
  "important (meta_rule a r) =
     important r @ (if has_meta (a_meta_description a) \<and> \<not> meta_optimal_length (a_meta_description a)
                    then [msg_adjust_meta] else [])"
  "minor (meta_rule a r) = minor r"
  by (simp_all add: meta_rule_def add_critical_def add_important_def)

lemma heading_rule_buckets:
  "critical (heading_rule a r) =
     critical r @ (if \<not> has_proper_structure (a_headings a) \<and> h1_count (a_headings a) = 0
                   then [msg_add_h1] else [])"
  "important (heading_rule a r) =
     important r @ (if \<not> has_proper_structure (a_headings a) \<and> 1 < h1_count (a_headings a)
                    then [msg_one_h1] else [])"
  "minor (heading_rule a r) = minor r"
  by (simp_all add: heading_rule_def add_critical_def add_important_def)

lemma content_rule_buckets:
  "critical (content_rule a r) = critical r"
  "important (content_rule a r) =
     important r @ (if \<not> has_sufficient_content (a_content a) then [msg_more_content] else [])"
  "minor (content_rule a r) = minor r"
  by (simp_all add: content_rule_def add_important_def)

lemma keywords_rule_buckets:
  "critical (keywords_rule a r) = critical r"
  "important (keywords_rule a r) = important r @ concat (map keyword_important (keywords_of a))"
  "minor (keywords_rule a r) = minor r @ concat (map keyword_minor (keywords_of a))"
  by (simp_all add: keywords_rule_eq)

lemma image_rule_buckets:
  "critical (image_rule a r) = critical r"
  "important (image_rule a r) =
     important r @ (if 0 < missing_alt_count (a_images a)
                    then [msg_alt_text (missing_alt_count (a_images a))] else [])"
  "minor (image_rule a r) = minor r"
  by (simp_all add: image_rule_def add_important_def)

lemma internal_link_rule_buckets:
  "critical (internal_link_rule a r) = critical r"
  "important (internal_link_rule a r) = important r"
  "minor (internal_link_rule a r) =
     minor r @ (if internal_count (a_links a) = 0 then [msg_internal_links] else [])"
  by (simp_all add: internal_link_rule_def add_minor_def)

lemma external_link_rule_buckets:
  "critical (external_link_rule a r) = critical r"
  "important (external_link_rule a r) = important r"
  "minor (external_link_rule a r) =
     minor r @ (if external_count (a_links a) = 0 then [msg_external_links] else [])"
  by (simp_all add: external_link_rule_def add_minor_def)

lemma performance_rule_buckets:
  "critical (performance_rule l r) =
     critical r @ (if num_val (performance l) < 90
                   then [msg_improve_performance (performance l)] else [])"
  "important (performance_rule l r) =
     important r @ (if 90 \<le> num_val (performance l) \<and> num_val (performance l) < 95
                    then [msg_optimize_performance (performance l)] else [])"
  "minor (performance_rule l r) = minor r"
  by (simp_all add: performance_rule_def add_critical_def add_important_def not_less)

lemma seo_rule_buckets:
  "critical (seo_rule l r) = critical r"
  "important (seo_rule l r) =
     important r @ (if num_val (seo l) < 90 then [msg_technical_seo (seo l)] else [])"
  "minor (seo_rule l r) = minor r"
  by (simp_all add: seo_rule_def add_important_def)

lemma accessibility_rule_buckets:
  "critical (accessibility_rule l r) = critical r"
  "important (accessibility_rule l r) =
     important r @ (if num_val (accessibility l) < 90
                    then [msg_accessibility (accessibility l)] else [])"
  "minor (accessibility_rule l r) = minor r"
  by (simp_all add: accessibility_rule_def add_important_def)

lemmas rule_buckets =
  title_rule_buckets meta_rule_buckets heading_rule_buckets content_rule_buckets
  keywords_rule_buckets image_rule_buckets internal_link_rule_buckets
  external_link_rule_buckets performance_rule_buckets seo_rule_buckets
  accessibility_rule_buckets

lemma critical_bucket:
  "critical (generate_recommendations a l) =
     (if \<not> has_title (a_title a) then [msg_add_title] else [])
     @ (if \<not> has_meta (a_meta_description a) then [msg_add_meta] else [])
     @ (if \<not> has_proper_structure (a_headings a) \<and> h1_count (a_headings a) = 0
        then [msg_add_h1] else [])
     @ (if num_val (performance l) < 90 then [msg_improve_performance (performance l)] else [])"
  unfolding generate_recommendations_def Let_def
  by (simp only: rule_buckets recommendations.simps append_Nil append_Nil2 append_assoc)

lemma important_bucket:
  "important (generate_recommendations a l) =
     (if has_title (a_title a) \<and> \<not> title_optimal_length (a_title a)
      then [msg_adjust_title] else [])
     @ (if has_meta (a_meta_description a) \<and> \<not> meta_optimal_length (a_meta_description a)
        then [msg_adjust_meta] else [])
     @ (if \<not> has_proper_structure (a_headings a) \<and> 1 < h1_count (a_headings a)
        then [msg_one_h1] else [])
     @ (if \<not> has_sufficient_content (a_content a) then [msg_more_content] else [])
     @ concat (map keyword_important (keywords_of a))
     @ (if 0 < missing_alt_count (a_images a)
        then [msg_alt_text (missing_alt_count (a_images a))] else [])
     @ (if 90 \<le> num_val (performance l) \<and> num_val (performance l) < 95
        then [msg_optimize_performance (performance l)] else [])
     @ (if num_val (seo l) < 90 then [msg_technical_seo (seo l)] else [])
     @ (if num_val (accessibility l) < 90 then [msg_accessibility (accessibility l)] else [])"
  unfolding generate_recommendations_def Let_def
  by (simp only: rule_buckets recommendations.simps append_Nil append_Nil2 append_assoc)

lemma minor_bucket:
  "minor (generate_recommendations a l) =
     concat (map keyword_minor (keywords_of a))
     @ (if internal_count (a_links a) = 0 then [msg_internal_links] else [])
     @ (if external_count (a_links a) = 0 then [msg_external_links] else [])"
  unfolding generate_recommendations_def Let_def
  by (simp only: rule_buckets recommendations.simps append_Nil append_Nil2 append_assoc)

section \<open>Counting messages\<close>

lemma count_list_if_single:
  "count_list (if b then [x] else []) m = (if b \<and> x = m then 1 else 0)"
  by (cases b) simp_all

lemma keyword_messages:
  "is_keyword_message (msg_include_keyword k)"
  "is_keyword_message (msg_increase_keyword k d)"
  "is_keyword_message (msg_reduce_keyword k d)"
  by (simp_all add: is_keyword_message_def msg_include_keyword_def msg_increase_keyword_def
      msg_reduce_keyword_def)

lemma keyword_important_messages: "m \<in> set (keyword_important kd) \<Longrightarrow> is_keyword_message m"
  by (auto simp: keyword_important_def keyword_messages split: if_splits)

lemma keyword_minor_messages: "m \<in> set (keyword_minor kd) \<Longrightarrow> is_keyword_message m"
  by (auto simp: keyword_minor_def keyword_messages split: if_splits)

lemma count_keyword_important:
  "\<not> is_keyword_message m \<Longrightarrow> count_list (concat (map keyword_important kws)) m = 0"
  by (auto simp: count_list_0_iff dest: keyword_important_messages)

lemma count_keyword_minor:
  "\<not> is_keyword_message m \<Longrightarrow> count_list (concat (map keyword_minor kws)) m = 0"
  by (auto simp: count_list_0_iff dest: keyword_minor_messages)

lemmas msg_defs =
  msg_add_title_def msg_adjust_title_def msg_add_meta_def msg_adjust_meta_def msg_add_h1_def
  msg_one_h1_def msg_more_content_def msg_alt_text_def msg_internal_links_def
  msg_external_links_def msg_improve_performance_def msg_optimize_performance_def
  msg_technical_seo_def msg_accessibility_def

lemma fixed_not_keyword:
  "\<not> is_keyword_message msg_add_title"
  "\<not> is_keyword_message msg_adjust_title"
  "\<not> is_keyword_message msg_add_meta"
  "\<not> is_keyword_message msg_adjust_meta"
  "\<not> is_keyword_message msg_add_h1"
  "\<not> is_keyword_message msg_one_h1"
  "\<not> is_keyword_message msg_more_content"
  "\<not> is_keyword_message (msg_alt_text n)"
  "\<not> is_keyword_message msg_internal_links"
  "\<not> is_keyword_message msg_external_links"
  "\<not> is_keyword_message (msg_improve_performance v)"
  "\<not> is_keyword_message (msg_optimize_performance v)"
  "\<not> is_keyword_message (msg_technical_seo v)"
  "\<not> is_keyword_message (msg_accessibility v)"
  by (simp_all add: is_keyword_message_def msg_defs)



lemmas count_simps =
  critical_bucket important_bucket minor_bucket all_messages_def count_list_if_single
  count_keyword_important count_keyword_minor is_keyword_message_def


lemma count_add_title:
  "count_list (critical (generate_recommendations a l)) msg_add_title =
     (if \<not> has_title (a_title a) then 1 else 0)"
  "count_list (all_messages (generate_recommendations a l)) msg_add_title =
     (if \<not> has_title (a_title a) then 1 else 0)"
  by (simp_all add: count_simps msg_defs)

lemma count_adjust_title:
  "count_list (important (generate_recommendations a l)) msg_adjust_title =
     (if has_title (a_title a) \<and> \<not> title_optimal_length (a_title a) then 1 else 0)"
  "count_list (all_messages (generate_recommendations a l)) msg_adjust_title =
     (if has_title (a_title a) \<and> \<not> title_optimal_length (a_title a) then 1 else 0)"
  by (simp_all add: count_simps msg_defs)

lemma count_add_meta:
  "count_list (critical (generate_recommendations a l)) msg_add_meta =
     (if \<not> has_meta (a_meta_description a) then 1 else 0)"
  "count_list (all_messages (generate_recommendations a l)) msg_add_meta =
     (if \<not> has_meta (a_meta_description a) then 1 else 0)"
  by (simp_all add: count_simps msg_defs)

lemma count_adjust_meta:
  "count_list (important (generate_recommendations a l)) msg_adjust_meta =
     (if has_meta (a_meta_description a) \<and> \<not> meta_optimal_length (a_meta_description a)
      then 1 else 0)"
  "count_list (all_messages (generate_recommendations a l)) msg_adjust_meta =
     (if has_meta (a_meta_description a) \<and> \<not> meta_optimal_length (a_meta_description a)
      then 1 else 0)"
  by (simp_all add: count_simps msg_defs)

lemma count_add_h1:
  "count_list (critical (generate_recommendations a l)) msg_add_h1 =
     (if \<not> has_proper_structure (a_headings a) \<and> h1_count (a_headings a) = 0 then 1 else 0)"
  "count_list (all_messages (generate_recommendations a l)) msg_add_h1 =
     (if \<not> has_proper_structure (a_headings a) \<and> h1_count (a_headings a) = 0 then 1 else 0)"
  by (simp_all add: count_simps msg_defs)

lemma count_one_h1:
  "count_list (important (generate_recommendations a l)) msg_one_h1 =
     (if \<not> has_proper_structure (a_headings a) \<and> 1 < h1_count (a_headings a) then 1 else 0)"
  "count_list (all_messages (generate_recommendations a l)) msg_one_h1 =
     (if \<not> has_proper_structure (a_headings a) \<and> 1 < h1_count (a_headings a) then 1 else 0)"
  by (simp_all add: count_simps msg_defs)

lemma count_improve_performance:
  "count_list (critical (generate_recommendations a l)) (msg_improve_performance (performance l)) =
     (if num_val (performance l) < 90 then 1 else 0)"
  "count_list (all_messages (generate_recommendations a l)) (msg_improve_performance (performance l)) =
     (if num_val (performance l) < 90 then 1 else 0)"
  by (simp_all add: count_simps msg_defs)

lemma count_optimize_performance:
  "count_list (important (generate_recommendations a l)) (msg_optimize_performance (performance l)) =
     (if 90 \<le> num_val (performance l) \<and> num_val (performance l) < 95 then 1 else 0)"
  "count_list (all_messages (generate_recommendations a l)) (msg_optimize_performance (performance l)) =
     (if 90 \<le> num_val (performance l) \<and> num_val (performance l) < 95 then 1 else 0)"
  by (simp_all add: count_simps msg_defs)

lemma findall_words_Nil: "re_findall_words [] = []"
  by code_simp

lemma analysis_of_empty_snapshot: "analysis_of empty_snapshot None = empty_analysis"
  by (simp add: analysis_of_def empty_snapshot_def empty_analysis_def keywords_result_def
      str_lower_def findall_words_Nil)

lemma all_buckets_filled:
  "critical (generate_recommendations empty_analysis audit_50) \<noteq> []
   \<and> important (generate_recommendations empty_analysis audit_50) \<noteq> []
   \<and> minor (generate_recommendations empty_analysis audit_50) \<noteq> []"
  by (simp add: critical_bucket important_bucket minor_bucket empty_analysis_def)

lemma filter_if_single:
  "filter P (if b then [x] else []) = (if b \<and> P x then [x] else [])"
  by (cases b) simp_all

lemma no_keyword_messages:
  "a_keywords a = None \<Longrightarrow>
     filter is_keyword_message (all_messages (generate_recommendations a l)) = []"
  by (simp add: all_messages_def critical_bucket important_bucket minor_bucket keywords_of_def
      filter_if_single fixed_not_keyword)

section \<open>Keyword entries and the example page\<close>













lemma length_filter_mono:
  "(\<And>x. x \<in> set xs \<Longrightarrow> P x \<Longrightarrow> Q x) \<Longrightarrow> length (filter P xs) \<le> length (filter Q xs)"
  by (induction xs) auto

lemma startswith_any_two: "startswith_any s [p, q] = (prefix p s \<or> prefix q s)"
  by (simp add: startswith_any_def startswith_def)

section \<open>The tokens of \<open>\b\w+\b\<close> are the maximal runs of word characters\<close>



















section \<open>The empty page\<close>

text \<open>
  C1. The snapshot with an empty title, an empty meta description, no headings,
  no content, no links, no images and the url \<open>https://x.com\<close>, analysed without
  keywords, has \<open>has_title = False\<close>, \<open>has_meta = False\<close>, \<open>h1_count = 0\<close>,
  \<open>word_count = 0\<close> and \<open>has_sufficient_content = False\<close>. With every audit score
  at 50, the recommendations for it are: critical, the title, meta description,
  H1 and performance messages; important, the thin-content, technical-SEO and
  accessibility messages; minor, the internal-links and external-links messages.
\<close>

theorem empty_page_example:
  "\<exists>a. analyze_content empty_snapshot None = Inr a
     \<and> has_title (a_title a) = False
     \<and> has_meta (a_meta_description a) = False
     \<and> h1_count (a_headings a) = 0
     \<and> word_count (a_content a) = 0
     \<and> has_sufficient_content (a_content a) = False
     \<and> critical (generate_recommendations a audit_50) =
           [''Add a title tag to your page'',
            ''Add a meta description to your page'',
            ''Add an H1 heading to your page'',
            ''Improve page performance (current score: 50/100)'']
     \<and> important (generate_recommendations a audit_50) =
           [''Add more content to your page (aim for at least 300 words)'',
            ''Address technical SEO issues (current score: 50/100)'',
            ''Improve accessibility (current score: 50/100)'']
     \<and> minor (generate_recommendations a audit_50) =
           [''Add internal links to improve site navigation'',
            ''Consider adding relevant external links'']"
proof -
  have words: "re_findall_words (str_lower (content empty_snapshot)) = []"
    by code_simp
  have a: "analyze_content empty_snapshot None =
             Inr \<lparr>a_title = \<lparr>title_length = 0, has_title = False, title_optimal_length = False\<rparr>,
                  a_meta_description =
                    \<lparr>meta_length = 0, has_meta = False, meta_optimal_length = False\<rparr>,
                  a_headings =
                    \<lparr>h1_count = 0, h2_count = 0, h3_count = 0, has_proper_structure = False\<rparr>,
                  a_content = \<lparr>word_count = 0, has_sufficient_content = False\<rparr>,
                  a_keywords = None,
                  a_links = \<lparr>internal_count = 0, external_count = 0, links_total_count = 0\<rparr>,
                  a_images = \<lparr>images_total_count = 0, missing_alt_count = 0\<rparr>\<rparr>"
    unfolding analyze_content_def Let_def words
    by (simp add: keywords_entry_def empty_snapshot_def)
  show ?thesis
    unfolding a
    by (simp add: generate_recommendations_def Let_def title_rule_def meta_rule_def
        heading_rule_def content_rule_def keywords_rule_def image_rule_def
        internal_link_rule_def external_link_rule_def performance_rule_def seo_rule_def
        accessibility_rule_def add_critical_def add_important_def add_minor_def audit_50_def
        msg_add_title_def msg_add_meta_def msg_add_h1_def msg_more_content_def
        msg_internal_links_def msg_external_links_def msg_improve_performance_def
        msg_technical_seo_def msg_accessibility_def format_0f_50 del: format_0f.simps)
qed

section \<open>Lengths of the title and of the meta description\<close>

text \<open>
  C4. For every snapshot, \<open>optimal_length\<close> of the title is true exactly when the
  title is not empty and its length is between 50 and 60, both included; it is
  false for the empty title. The same holds for the meta description with the
  range 150 to 160.
\<close>

theorem optimal_length_ranges:
  "\<exists>a. analyze_content c keywords = Inr a
     \<and> title_optimal_length (a_title a) =
         (title c \<noteq> [] \<and> 50 \<le> length (title c) \<and> length (title c) \<le> 60)
     \<and> meta_optimal_length (a_meta_description a) =
         (meta_description c \<noteq> [] \<and> 150 \<le> length (meta_description c)
          \<and> length (meta_description c) \<le> 160)"
  by (simp add: analyze_content_Inr analysis_of_def Let_def)

text \<open>
  At the ends of the ranges: titles of 50 and 60 characters are optimal, titles
  of 49 and 61 characters are not; meta descriptions of 150 and 160 characters
  are optimal, those of 149 and 161 characters are not; the empty ones are not.
\<close>

theorem optimal_length_ranges_witness:
  "(\<exists>a. analyze_content (empty_snapshot\<lparr>title := replicate 50 CHR ''t''\<rparr>) None = Inr a
        \<and> title_optimal_length (a_title a))
   \<and> (\<exists>a. analyze_content (empty_snapshot\<lparr>title := replicate 60 CHR ''t''\<rparr>) None = Inr a
        \<and> title_optimal_length (a_title a))
   \<and> (\<exists>a. analyze_content (empty_snapshot\<lparr>title := replicate 49 CHR ''t''\<rparr>) None = Inr a
        \<and> title_optimal_length (a_title a) = False)
   \<and> (\<exists>a. analyze_content (empty_snapshot\<lparr>title := replicate 61 CHR ''t''\<rparr>) None = Inr a
        \<and> title_optimal_length (a_title a) = False)
   \<and> (\<exists>a. analyze_content (empty_snapshot\<lparr>title := []\<rparr>) None = Inr a
        \<and> title_optimal_length (a_title a) = False)
   \<and> (\<exists>a. analyze_content (empty_snapshot\<lparr>meta_description := replicate 150 CHR ''m''\<rparr>) None = Inr a
        \<and> meta_optimal_length (a_meta_description a))
   \<and> (\<exists>a. analyze_content (empty_snapshot\<lparr>meta_description := replicate 160 CHR ''m''\<rparr>) None = Inr a
        \<and> meta_optimal_length (a_meta_description a))
   \<and> (\<exists>a. analyze_content (empty_snapshot\<lparr>meta_description := replicate 149 CHR ''m''\<rparr>) None = Inr a
        \<and> meta_optimal_length (a_meta_description a) = False)
   \<and> (\<exists>a. analyze_content (empty_snapshot\<lparr>meta_description := replicate 161 CHR ''m''\<rparr>) None = Inr a
        \<and> meta_optimal_length (a_meta_description a) = False)
   \<and> (\<exists>a. analyze_content (empty_snapshot\<lparr>meta_description := []\<rparr>) None = Inr a
        \<and> meta_optimal_length (a_meta_description a) = False)"
proof -
  have t: "\<exists>a. analyze_content (empty_snapshot\<lparr>title := replicate n CHR ''t''\<rparr>) None = Inr a
      \<and> title_optimal_length (a_title a) = (50 \<le> n \<and> n \<le> 60)" for n
    using optimal_length_ranges [of "empty_snapshot\<lparr>title := replicate n CHR ''t''\<rparr>" None]
    by auto
  have m: "\<exists>a. analyze_content (empty_snapshot\<lparr>meta_description := replicate n CHR ''m''\<rparr>) None = Inr a
      \<and> meta_optimal_length (a_meta_description a) = (150 \<le> n \<and> n \<le> 160)" for n
    using optimal_length_ranges
      [of "empty_snapshot\<lparr>meta_description := replicate n CHR ''m''\<rparr>" None]
    by auto
  show ?thesis
    using t [of 50] t [of 60] t [of 49] t [of 61] t [of 0]
      m [of 150] m [of 160] m [of 149] m [of 161] m [of 0]
    by simp
qed

section \<open>Keywords that are not supplied\<close>

text \<open>
  C9. For every snapshot, analysing with the empty keyword list gives the same
  result as analysing with no keyword list, and in both the \<open>keywords\<close> entry is
  absent.
\<close>

theorem empty_keyword_list_is_no_keywords:
  "analyze_content c (Some []) = analyze_content c None
   \<and> (\<exists>a. analyze_content c (Some []) = Inr a \<and> a_keywords a = None)"
  by (simp add: analyze_content_Inr analysis_of_def keywords_result_def Let_def)

section \<open>Counts of links and images\<close>

text \<open>
  C10. For every snapshot, the internal and the external link counts are at most
  the total link count, which is the length of the snapshot's list of links; the
  count of images without alt text is at most the total image count, which is
  the length of the list of images; and none of the counts is negative.
\<close>

theorem link_and_image_counts:
  "\<exists>a. analyze_content c keywords = Inr a
     \<and> 0 \<le> internal_count (a_links a)
     \<and> internal_count (a_links a) \<le> links_total_count (a_links a)
     \<and> 0 \<le> external_count (a_links a)
     \<and> external_count (a_links a) \<le> links_total_count (a_links a)
     \<and> 0 \<le> links_total_count (a_links a)
     \<and> links_total_count (a_links a) = int (length (links c))
     \<and> 0 \<le> missing_alt_count (a_images a)
     \<and> missing_alt_count (a_images a) \<le> images_total_count (a_images a)
     \<and> 0 \<le> images_total_count (a_images a)
     \<and> images_total_count (a_images a) = int (length (images c))"
  by (simp add: analyze_content_Inr analysis_of_def Let_def)

section \<open>One message per rule\<close>

text \<open>
  C6. For every analysis and audit, the title rule emits the critical message
  exactly when \<open>has_title\<close> is false and the important message exactly when the
  title is present and not of optimal length, so at most one of the two; the
  same holds for the two meta description messages. Of the two H1 messages at
  most one is emitted: for an analysis whose \<open>has_proper_structure\<close> is
  \<open>h1_count = 1\<close>, as \<open>analyze_content\<close> computes it, the critical one exactly when
  \<open>h1_count = 0\<close>, the important one exactly when \<open>1 < h1_count\<close>, none when
  \<open>h1_count = 1\<close>. Of the two performance messages the critical one is emitted
  exactly when the score is below 90, the important one exactly when it is at
  least 90 and below 95, none from 95 on. The rules fill the three lists
  independently of each other, and there is an input that fills all three.
\<close>

theorem one_message_per_rule:
  "count_list (critical (generate_recommendations a l)) msg_add_title =
     (if \<not> has_title (a_title a) then 1 else 0)
   \<and> count_list (important (generate_recommendations a l)) msg_adjust_title =
       (if has_title (a_title a) \<and> \<not> title_optimal_length (a_title a) then 1 else 0)
   \<and> count_list (all_messages (generate_recommendations a l)) msg_add_title
       + count_list (all_messages (generate_recommendations a l)) msg_adjust_title \<le> 1
   \<and> count_list (critical (generate_recommendations a l)) msg_add_meta =
       (if \<not> has_meta (a_meta_description a) then 1 else 0)
   \<and> count_list (important (generate_recommendations a l)) msg_adjust_meta =
       (if has_meta (a_meta_description a) \<and> \<not> meta_optimal_length (a_meta_description a)
        then 1 else 0)
   \<and> count_list (all_messages (generate_recommendations a l)) msg_add_meta
       + count_list (all_messages (generate_recommendations a l)) msg_adjust_meta \<le> 1
   \<and> count_list (critical (generate_recommendations a l)) msg_add_h1 =
       (if \<not> has_proper_structure (a_headings a) \<and> h1_count (a_headings a) = 0 then 1 else 0)
   \<and> count_list (important (generate_recommendations a l)) msg_one_h1 =
       (if \<not> has_proper_structure (a_headings a) \<and> 1 < h1_count (a_headings a) then 1 else 0)
   \<and> count_list (all_messages (generate_recommendations a l)) msg_add_h1
       + count_list (all_messages (generate_recommendations a l)) msg_one_h1 \<le> 1
   \<and> (has_proper_structure (a_headings a) = (h1_count (a_headings a) = 1) \<longrightarrow>
        count_list (critical (generate_recommendations a l)) msg_add_h1 =
          (if h1_count (a_headings a) = 0 then 1 else 0)
        \<and> count_list (important (generate_recommendations a l)) msg_one_h1 =
            (if 1 < h1_count (a_headings a) then 1 else 0)
        \<and> count_list (all_messages (generate_recommendations a l)) msg_add_h1
            + count_list (all_messages (generate_recommendations a l)) msg_one_h1 =
            (if h1_count (a_headings a) = 1 then 0
             else if h1_count (a_headings a) = 0 \<or> 1 < h1_count (a_headings a) then 1 else 0))
   \<and> count_list (critical (generate_recommendations a l)) (msg_improve_performance (performance l)) =
       (if num_val (performance l) < 90 then 1 else 0)
   \<and> count_list (important (generate_recommendations a l)) (msg_optimize_performance (performance l)) =
       (if 90 \<le> num_val (performance l) \<and> num_val (performance l) < 95 then 1 else 0)
   \<and> count_list (all_messages (generate_recommendations a l)) (msg_improve_performance (performance l))
       + count_list (all_messages (generate_recommendations a l))
           (msg_optimize_performance (performance l)) =
       (if num_val (performance l) < 95 then 1 else 0)
   \<and> (\<exists>a' l'. critical (generate_recommendations a' l') \<noteq> []
          \<and> important (generate_recommendations a' l') \<noteq> []
          \<and> minor (generate_recommendations a' l') \<noteq> [])"
proof -
  have h1: "has_proper_structure (a_headings a) = (h1_count (a_headings a) = 1) \<longrightarrow>
        count_list (critical (generate_recommendations a l)) msg_add_h1 =
          (if h1_count (a_headings a) = 0 then 1 else 0)
        \<and> count_list (important (generate_recommendations a l)) msg_one_h1 =
            (if 1 < h1_count (a_headings a) then 1 else 0)
        \<and> count_list (all_messages (generate_recommendations a l)) msg_add_h1
            + count_list (all_messages (generate_recommendations a l)) msg_one_h1 =
            (if h1_count (a_headings a) = 1 then 0
             else if h1_count (a_headings a) = 0 \<or> 1 < h1_count (a_headings a) then 1 else 0)"
    by (simp add: count_add_h1 count_one_h1)
  have ex: "\<exists>a' l'. critical (generate_recommendations a' l') \<noteq> []
          \<and> important (generate_recommendations a' l') \<noteq> []
          \<and> minor (generate_recommendations a' l') \<noteq> []"
    using all_buckets_filled by blast
  show ?thesis
    apply (intro conjI)
                 apply (simp_all only: count_add_title count_adjust_title count_add_meta
        count_adjust_meta count_improve_performance count_optimize_performance
        count_add_h1 count_one_h1)
            apply simp_all
    using h1 ex by auto
qed


theorem one_message_per_rule_witness:
  "has_proper_structure (a_headings empty_analysis) = (h1_count (a_headings empty_analysis) = 1)
   \<and> count_list (critical (generate_recommendations empty_analysis audit_50)) msg_add_title = 1
   \<and> count_list (important (generate_recommendations empty_analysis audit_50)) msg_adjust_title = 0
   \<and> count_list (critical (generate_recommendations empty_analysis audit_50)) msg_add_meta = 1
   \<and> count_list (important (generate_recommendations empty_analysis audit_50)) msg_adjust_meta = 0
   \<and> count_list (critical (generate_recommendations empty_analysis audit_50)) msg_add_h1 = 1
   \<and> count_list (important (generate_recommendations empty_analysis audit_50)) msg_one_h1 = 0
   \<and> count_list (critical (generate_recommendations empty_analysis audit_50))
         (msg_improve_performance (PyInt 50)) = 1
   \<and> count_list (important (generate_recommendations empty_analysis audit_50))
         (msg_optimize_performance (PyInt 50)) = 0"
  using one_message_per_rule [of empty_analysis audit_50]
  by (simp add: empty_analysis_def audit_50_def)

section \<open>No keyword message without keywords\<close>

text \<open>
  C7. An analysis produced without a keyword list has no \<open>keywords\<close> entry, and for
  every analysis without that entry no recommendation in any of the three lists
  is a keyword message. The \<open>keywords\<close> entry is the only one that can be absent
  from an analysis. Each of the three keyword templates is recognised as a
  keyword message.
\<close>

theorem no_keyword_recommendation_without_keywords:
  "(\<exists>a. analyze_content c None = Inr a \<and> a_keywords a = None
        \<and> filter is_keyword_message (all_messages (generate_recommendations a l)) = [])
   \<and> (a_keywords a' = None \<longrightarrow>
        filter is_keyword_message (all_messages (generate_recommendations a' l)) = [])
   \<and> is_keyword_message (msg_include_keyword k)
   \<and> is_keyword_message (msg_increase_keyword k d)
   \<and> is_keyword_message (msg_reduce_keyword k d)"
proof -
  have "a_keywords (analysis_of c None) = None"
    by (simp add: analysis_of_def keywords_result_def Let_def)
  then show ?thesis
    by (simp add: analyze_content_Inr no_keyword_messages keyword_messages)
qed

theorem no_keyword_recommendation_without_keywords_witness:
  "a_keywords empty_analysis = None
   \<and> filter is_keyword_message (all_messages (generate_recommendations empty_analysis audit_50)) = []
   \<and> all_messages (generate_recommendations empty_analysis audit_50) \<noteq> []"
  using no_keyword_recommendation_without_keywords [of empty_snapshot audit_50 empty_analysis]
    all_buckets_filled
  by (simp add: empty_analysis_def all_messages_def)

section \<open>Keyword density\<close>




section \<open>Internal and external links\<close>

text \<open>
  C3. For every snapshot, the internal count is the number of links whose href
  starts with \<open>/\<close> or with the url of the page, and the external count is the
  number of links whose href starts with \<open>http\<close> or \<open>https\<close>. When the url of the
  page starts with \<open>http\<close>, every link whose href starts with that url is counted
  in both. A link can be counted in neither (\<open>mailto:me@x.com\<close>), and a link to
  \<open>https://x.com/about\<close> on the page \<open>https://x.com\<close> is counted as internal and as
  external, so that the two counts add up to more than the total.
\<close>

theorem link_classification:
  "(\<exists>a. analyze_content c keywords = Inr a
      \<and> internal_count (a_links a) =
          int (length (filter (\<lambda>l. prefix ''/'' (href l) \<or> prefix (url c) (href l)) (links c)))
      \<and> external_count (a_links a) =
          int (length (filter (\<lambda>l. prefix ''http'' (href l) \<or> prefix ''https'' (href l)) (links c)))
      \<and> links_total_count (a_links a) = int (length (links c))
      \<and> (prefix ''http'' (url c) \<longrightarrow>
           int (length (filter (\<lambda>l. prefix (url c) (href l)) (links c))) \<le> internal_count (a_links a)
           \<and> int (length (filter (\<lambda>l. prefix (url c) (href l)) (links c)))
               \<le> external_count (a_links a)))
   \<and> (\<exists>a. analyze_content mail_link_page None = Inr a
         \<and> internal_count (a_links a) = 0 \<and> external_count (a_links a) = 0
         \<and> links_total_count (a_links a) = 1)
   \<and> (\<exists>a. analyze_content own_link_page None = Inr a
         \<and> internal_count (a_links a) = 1 \<and> external_count (a_links a) = 1
         \<and> links_total_count (a_links a) = 1)"
proof -
  have mono: "prefix ''http'' (url c) \<longrightarrow>
      length (filter (\<lambda>l. prefix (url c) (href l)) (links c))
        \<le> length (filter (\<lambda>l. prefix ''/'' (href l) \<or> prefix (url c) (href l)) (links c))
      \<and> length (filter (\<lambda>l. prefix (url c) (href l)) (links c))
          \<le> length (filter (\<lambda>l. prefix ''http'' (href l) \<or> prefix ''https'' (href l)) (links c))"
  proof
    assume http: "prefix ''http'' (url c)"
    have "length (filter (\<lambda>l. prefix (url c) (href l)) (links c))
        \<le> length (filter (\<lambda>l. prefix ''/'' (href l) \<or> prefix (url c) (href l)) (links c))"
      by (rule length_filter_mono) simp
    moreover have "length (filter (\<lambda>l. prefix (url c) (href l)) (links c))
        \<le> length (filter (\<lambda>l. prefix ''http'' (href l) \<or> prefix ''https'' (href l)) (links c))"
    proof (rule length_filter_mono)
      fix l assume "prefix (url c) (href l)"
      with http have "prefix ''http'' (href l)"
        by (rule prefix_order.trans)
      then show "prefix ''http'' (href l) \<or> prefix ''https'' (href l)" ..
    qed
    ultimately show "length (filter (\<lambda>l. prefix (url c) (href l)) (links c))
        \<le> length (filter (\<lambda>l. prefix ''/'' (href l) \<or> prefix (url c) (href l)) (links c))
      \<and> length (filter (\<lambda>l. prefix (url c) (href l)) (links c))
          \<le> length (filter (\<lambda>l. prefix ''http'' (href l) \<or> prefix ''https'' (href l)) (links c))"
      by simp
  qed
  have general: "\<exists>a. analyze_content c keywords = Inr a
      \<and> internal_count (a_links a) =
          int (length (filter (\<lambda>l. prefix ''/'' (href l) \<or> prefix (url c) (href l)) (links c)))
      \<and> external_count (a_links a) =
          int (length (filter (\<lambda>l. prefix ''http'' (href l) \<or> prefix ''https'' (href l)) (links c)))
      \<and> links_total_count (a_links a) = int (length (links c))
      \<and> (prefix ''http'' (url c) \<longrightarrow>
           int (length (filter (\<lambda>l. prefix (url c) (href l)) (links c))) \<le> internal_count (a_links a)
           \<and> int (length (filter (\<lambda>l. prefix (url c) (href l)) (links c)))
               \<le> external_count (a_links a))"
    using mono by (simp add: analyze_content_Inr analysis_of_def Let_def startswith_any_two)
  have neither: "\<exists>a. analyze_content mail_link_page None = Inr a
         \<and> internal_count (a_links a) = 0 \<and> external_count (a_links a) = 0
         \<and> links_total_count (a_links a) = 1"
    by (simp add: analyze_content_Inr analysis_of_def Let_def startswith_any_two
        mail_link_page_def empty_snapshot_def)
  have both: "\<exists>a. analyze_content own_link_page None = Inr a
         \<and> internal_count (a_links a) = 1 \<and> external_count (a_links a) = 1
         \<and> links_total_count (a_links a) = 1"
    by (simp add: analyze_content_Inr analysis_of_def Let_def startswith_any_two
        own_link_page_def empty_snapshot_def)
  from general neither both show ?thesis
    by blast
qed

theorem link_classification_witness:
  "prefix ''http'' (url own_link_page)
   \<and> (\<exists>a. analyze_content own_link_page None = Inr a
         \<and> length (filter (\<lambda>l. prefix (url own_link_page) (href l)) (links own_link_page)) = 1
         \<and> 1 \<le> internal_count (a_links a) \<and> 1 \<le> external_count (a_links a)
         \<and> links_total_count (a_links a) = 1)"
proof -
  have p: "prefix ''http'' (url own_link_page)"
    by (simp add: own_link_page_def empty_snapshot_def)
  have n: "length (filter (\<lambda>l. prefix (url own_link_page) (href l)) (links own_link_page)) = 1"
    by (simp add: own_link_page_def empty_snapshot_def)
  from link_classification [of own_link_page None] p n show ?thesis
    by auto
qed

section \<open>The word count\<close>



end
